theory Spec2Isabelle
  imports Main "HOL-Library.Word"
begin

section \<open>The data model of commands.hpp\<close>

text \<open>
  \<^verbatim>\<open>struct CommandResult { int code; std::string output; };\<close>
  The codes that occur are small constants, so \<open>int\<close> is modelled by the integers; a
  \<open>std::string\<close> is a list of bytes.
\<close>

record CommandResult =
  code :: int
  output_str :: string

text \<open>
  The C++ exceptions that the string operations of the handlers can raise. No handler and
  no boundary function of \<^verbatim>\<open>execute\<close> catches them, so a raised exception ends the call
  without a \<open>CommandResult\<close>.
\<close>

datatype exn = Out_of_range | Length_error

section \<open>The std::string operations the handlers use\<close>

text \<open>
  A position of type \<^verbatim>\<open>size_t\<close> is a \<open>nat option\<close>: \<open>None\<close> stands for
  \<^verbatim>\<open>std::string::npos\<close>, the largest value of the type, which no string's size reaches.
\<close>

fun find_if_pos :: "(char \<Rightarrow> bool) \<Rightarrow> string \<Rightarrow> nat option" where
  "find_if_pos P [] = None"
| "find_if_pos P (c # cs) = (if P c then Some 0 else map_option Suc (find_if_pos P cs))"

fun rfind_if_pos :: "(char \<Rightarrow> bool) \<Rightarrow> string \<Rightarrow> nat option" where
  "rfind_if_pos P [] = None"
| "rfind_if_pos P (c # cs) =
     (case rfind_if_pos P cs of
        Some i \<Rightarrow> Some (Suc i)
      | None \<Rightarrow> (if P c then Some 0 else None))"

definition find_char :: "string \<Rightarrow> char \<Rightarrow> nat option" where
  \<comment> \<open>\<^verbatim>\<open>s.find(ch)\<close>\<close>
  "find_char s ch = find_if_pos (\<lambda>c. c = ch) s"

definition find_first_not_of :: "string \<Rightarrow> string \<Rightarrow> nat option" where
  \<comment> \<open>\<^verbatim>\<open>s.find_first_not_of(chars)\<close>\<close>
  "find_first_not_of s chars = find_if_pos (\<lambda>c. c \<notin> set chars) s"

definition find_last_not_of :: "string \<Rightarrow> string \<Rightarrow> nat option" where
  \<comment> \<open>\<^verbatim>\<open>s.find_last_not_of(chars)\<close>\<close>
  "find_last_not_of s chars = rfind_if_pos (\<lambda>c. c \<notin> set chars) s"

definition pos_plus_one :: "nat option \<Rightarrow> nat" where
  \<comment> \<open>\<^verbatim>\<open>pos + 1\<close> in \<^verbatim>\<open>size_t\<close>: \<^verbatim>\<open>npos + 1\<close> wraps around to 0\<close>
  "pos_plus_one pos = (case pos of None \<Rightarrow> 0 | Some i \<Rightarrow> Suc i)"

definition substr :: "string \<Rightarrow> nat option \<Rightarrow> exn + string" where
  \<comment> \<open>\<^verbatim>\<open>s.substr(pos)\<close>: throws \<^verbatim>\<open>std::out_of_range\<close> when \<^verbatim>\<open>pos > size()\<close>\<close>
  "substr s pos =
     (case pos of
        None \<Rightarrow> Inl Out_of_range
      | Some p \<Rightarrow> (if length s < p then Inl Out_of_range else Inr (drop p s)))"

definition substr_n :: "string \<Rightarrow> nat \<Rightarrow> nat \<Rightarrow> exn + string" where
  \<comment> \<open>\<^verbatim>\<open>s.substr(pos, n)\<close>: at most \<open>n\<close> characters from \<open>pos\<close>\<close>
  "substr_n s p n = (if length s < p then Inl Out_of_range else Inr (take n (drop p s)))"

definition bind_exn :: "exn + 'a \<Rightarrow> ('a \<Rightarrow> exn + 'b) \<Rightarrow> exn + 'b" where
  \<comment> \<open>sequencing: an exception of the first statement skips the rest\<close>
  "bind_exn m f = (case m of Inl e \<Rightarrow> Inl e | Inr x \<Rightarrow> f x)"

abbreviation TAB :: char where
  "TAB \<equiv> CHR 0x09"

abbreviation NL :: char where
  "NL \<equiv> CHR 0x0A"

section \<open>The host: filesystem primitives of the C and C++ libraries\<close>

text \<open>
  The handlers reach the filesystem through \<^verbatim>\<open>opendir\<close>/\<^verbatim>\<open>readdir\<close>, \<^verbatim>\<open>stat\<close>,
  \<^verbatim>\<open>remove\<close>, \<^verbatim>\<open>std::ofstream\<close> and \<^verbatim>\<open>std::ifstream\<close>. These belong to the host, not
  to the repository, so they are parameters of the model: a record of functions over a
  filesystem state \<open>'fs\<close> of the host's choosing. Each field returns what the code
  observes of the primitive and, for the primitives that write, the state afterwards.
\<close>

record 'fs host =
  h_opendir :: "string \<Rightarrow> 'fs \<Rightarrow> string list option"
    \<comment> \<open>\<open>None\<close>: \<^verbatim>\<open>opendir\<close> returned null; \<open>Some names\<close>: the \<^verbatim>\<open>d_name\<close>s that the
        successive \<^verbatim>\<open>readdir\<close> calls return, in order\<close>
  h_stat :: "string \<Rightarrow> 'fs \<Rightarrow> bool option"
    \<comment> \<open>\<open>None\<close>: \<^verbatim>\<open>stat\<close> failed; \<open>Some d\<close>: it returned 0 and \<open>d\<close> is \<^verbatim>\<open>S_ISDIR(st.st_mode)\<close>\<close>
  h_remove :: "string \<Rightarrow> 'fs \<Rightarrow> 'fs option"
    \<comment> \<open>\<open>None\<close>: \<^verbatim>\<open>remove\<close> returned nonzero; \<open>Some fs'\<close>: it returned 0\<close>
  h_ofstream_open :: "string \<Rightarrow> 'fs \<Rightarrow> 'fs option"
    \<comment> \<open>\<^verbatim>\<open>std::ofstream file(filename)\<close>: \<open>None\<close> when \<^verbatim>\<open>is_open()\<close> is false, else the
        state with the file created or truncated\<close>
  h_ofstream_put :: "string \<Rightarrow> string \<Rightarrow> 'fs \<Rightarrow> bool \<times> 'fs"
    \<comment> \<open>\<^verbatim>\<open>file << content\<close> and the closing of the stream at the end of its scope: whether
        every byte reached the file (the code never looks), and the state afterwards\<close>
  h_ifstream_open :: "string \<Rightarrow> 'fs \<Rightarrow> bool"
    \<comment> \<open>\<^verbatim>\<open>std::ifstream file(args, binary | ate)\<close>: the value of \<^verbatim>\<open>is_open()\<close>\<close>
  h_tellg :: "string \<Rightarrow> 'fs \<Rightarrow> int"
    \<comment> \<open>\<^verbatim>\<open>file.tellg()\<close> right after opening at the end, as a \<^verbatim>\<open>std::streamsize\<close>\<close>
  h_read :: "string \<Rightarrow> nat \<Rightarrow> 'fs \<Rightarrow> string option"
    \<comment> \<open>\<^verbatim>\<open>file.read(buf, n)\<close> from offset 0: \<open>None\<close> when the stream fails, else the bytes\<close>

section \<open>The handlers\<close>

type_synonym 'fs CommandFunction =
  "'fs host \<Rightarrow> string \<Rightarrow> 'fs \<Rightarrow> (exn + CommandResult) \<times> 'fs"

subsection \<open>rm.cpp\<close>

definition rm :: "'fs CommandFunction" where
  "rm h args fs =
     (if args = [] then (Inr \<lparr>code = -1, output_str = ''Usage: rm <filename>''\<rparr>, fs)
      else
        (case h_remove h args fs of
           Some fs' \<Rightarrow> (Inr \<lparr>code = 0, output_str = ''''\<rparr>, fs')
         | None \<Rightarrow> (Inr \<lparr>code = -1, output_str = ''Failed to delete file''\<rparr>, fs)))"

subsection \<open>cat.cpp\<close>

definition read_into :: "nat \<Rightarrow> string \<Rightarrow> string" where
  \<comment> \<open>\<^verbatim>\<open>std::string content(size, '\0')\<close> after \<^verbatim>\<open>file.read(&content[0], size)\<close> stored
      \<open>bytes\<close> at its start\<close>
  "read_into n bytes = take n bytes @ replicate (n - length bytes) (CHR 0x00)"

definition cat :: "'fs CommandFunction" where
  "cat h args fs =
     (if args = [] then (Inr \<lparr>code = -1, output_str = ''Usage: cat <filename>''\<rparr>, fs)
      else if \<not> h_ifstream_open h args fs
        then (Inr \<lparr>code = -1, output_str = ''Failed to open file''\<rparr>, fs)
      else
        (let size = h_tellg h args fs in
           if size < 0 then (Inl Length_error, fs)
           else
             (case h_read h args (nat size) fs of
                None \<Rightarrow> (Inr \<lparr>code = -1, output_str = ''Failed to read file''\<rparr>, fs)
              | Some bytes \<Rightarrow> (Inr \<lparr>code = 0, output_str = read_into (nat size) bytes\<rparr>, fs))))"

subsection \<open>echo.cpp\<close>

definition echo_redirect :: "string \<Rightarrow> nat \<Rightarrow> exn + string \<times> string" where
  \<comment> \<open>lines 9 to 14: the content and the filename of the redirect form\<close>
  "echo_redirect args gt_pos =
     bind_exn (substr_n args 0 gt_pos) (\<lambda>content.
     bind_exn (substr args (Some (gt_pos + 1))) (\<lambda>filename.
     bind_exn (substr_n content 0 (pos_plus_one (find_last_not_of content [CHR '' '', TAB])))
       (\<lambda>content.
     bind_exn (substr filename (find_first_not_of filename [CHR '' '', TAB])) (\<lambda>filename.
     Inr (content, filename)))))"

definition echo :: "'fs CommandFunction" where
  "echo h args fs =
     (case find_char args (CHR ''>'') of
        Some gt_pos \<Rightarrow>
          (case echo_redirect args gt_pos of
             Inl e \<Rightarrow> (Inl e, fs)
           | Inr (content, filename) \<Rightarrow>
               (case h_ofstream_open h filename fs of
                  None \<Rightarrow> (Inr \<lparr>code = -1, output_str = ''Failed to open file for writing''\<rparr>, fs)
                | Some fs1 \<Rightarrow>
                    (Inr \<lparr>code = 0, output_str = ''''\<rparr>, snd (h_ofstream_put h filename content fs1))))
      | None \<Rightarrow> (Inr \<lparr>code = 0, output_str = args\<rparr>, fs))"

subsection \<open>ls.cpp\<close>

fun ls_loop :: "'fs host \<Rightarrow> string \<Rightarrow> 'fs \<Rightarrow> string list \<Rightarrow> string \<Rightarrow> string" where
  "ls_loop h path fs [] out = out"
| "ls_loop h path fs (d_name # entries) out =
     (let full_path = (if last path \<noteq> CHR ''/'' then path @ ''/'' else path) @ d_name
      in case h_stat h full_path fs of
           Some is_dir \<Rightarrow>
             ls_loop h path fs entries
               (out @ (if is_dir then ''d'' else ''-'') @ '' '' @ d_name @ [NL])
         | None \<Rightarrow> ls_loop h path fs entries (out @ d_name @ [NL]))"

definition ls :: "'fs CommandFunction" where
  "ls h args fs =
     (let path = (if args = [] then ''/'' else args) in
        case h_opendir h path fs of
          None \<Rightarrow> (Inr \<lparr>code = -1, output_str = ''Failed to open directory: '' @ path\<rparr>, fs)
        | Some entries \<Rightarrow> (Inr \<lparr>code = 0, output_str = ls_loop h path fs entries ''''\<rparr>, fs))"

section \<open>The dispatcher of execute.cpp\<close>

definition command_registry :: "string \<Rightarrow> 'fs CommandFunction option" where
  "command_registry = [''ls'' \<mapsto> ls, ''cat'' \<mapsto> cat, ''echo'' \<mapsto> echo, ''rm'' \<mapsto> rm]"

definition split_command :: "string \<Rightarrow> exn + string \<times> string" where
  \<comment> \<open>lines 19 to 23: the verb \<^verbatim>\<open>cmd\<close> and the argument string \<^verbatim>\<open>args\<close>\<close>
  "split_command command =
     (let space_pos = find_char command (CHR '' '') in
        bind_exn (case space_pos of Some p \<Rightarrow> substr_n command 0 p | None \<Rightarrow> Inr command)
          (\<lambda>cmd.
        bind_exn (case space_pos of Some p \<Rightarrow> substr command (Some (p + 1)) | None \<Rightarrow> Inr '''')
          (\<lambda>args.
        Inr (cmd, args))))"

definition execute_command :: "'fs host \<Rightarrow> string \<Rightarrow> 'fs \<Rightarrow> (exn + CommandResult) \<times> 'fs" where
  "execute_command h command fs =
     (case split_command command of
        Inl e \<Rightarrow> (Inl e, fs)
      | Inr (cmd, args) \<Rightarrow>
          (case command_registry cmd of
             None \<Rightarrow> (Inr \<lparr>code = -1, output_str = ''Unknown command''\<rparr>, fs)
           | Some handler \<Rightarrow> handler h args fs))"

section \<open>The boundary functions of bios.cpp\<close>

text \<open>
  The state of the module between two calls: \<^verbatim>\<open>static int last_status\<close> and the
  filesystem of the host. A \<^verbatim>\<open>const char*\<close> argument is a \<open>string option\<close>: \<open>None\<close> is
  the null pointer, \<open>Some s\<close> points to the characters \<open>s\<close> followed by the terminator
  (so a command built from it holds no zero byte, and \<^verbatim>\<open>c_str()\<close> on it or on a part of
  it gives the same characters back). An \<^verbatim>\<open>int*\<close> argument is an \<open>int option\<close>:
  \<open>None\<close> is the null pointer, \<open>Some v\<close> points to an \<^verbatim>\<open>int\<close> holding \<open>v\<close>. The messages
  sent to the console of the host are not part of the model.
\<close>

record 'fs kernel =
  last_status :: int
  vfs :: 'fs

definition boot :: "'fs \<Rightarrow> 'fs kernel" where
  \<comment> \<open>\<^verbatim>\<open>static int last_status = 0;\<close> over the filesystem the host starts with\<close>
  "boot fs0 = \<lparr>last_status = 0, vfs = fs0\<rparr>"

definition execute :: "'fs host \<Rightarrow> string option \<Rightarrow> 'fs kernel \<Rightarrow> (exn + int) \<times> 'fs kernel" where
  "execute h command k =
     (case command of
        Some (c # cs) \<Rightarrow>
          (case execute_command h (c # cs) (vfs k) of
             (Inl e, fs') \<Rightarrow> (Inl e, k\<lparr>vfs := fs'\<rparr>)
           | (Inr result, fs') \<Rightarrow>
               (Inr (code result), \<lparr>last_status = code result, vfs = fs'\<rparr>))
      | _ \<Rightarrow> (Inr (-1), k\<lparr>last_status := -1\<rparr>))"

text \<open>
  The allocator is the host's as well: whether \<^verbatim>\<open>malloc(n)\<close> succeeds, and the bytes an
  uninitialised block holds.
\<close>

record heap =
  can_malloc :: "nat \<Rightarrow> bool"
  junk :: "nat \<Rightarrow> char"

definition malloc :: "heap \<Rightarrow> nat \<Rightarrow> string option" where
  "malloc hp n = (if can_malloc hp n then Some (map (junk hp) [0..<n]) else None)"

definition memcpy :: "string \<Rightarrow> string \<Rightarrow> nat \<Rightarrow> string" where
  \<comment> \<open>\<^verbatim>\<open>memcpy(dst, src, n)\<close> with \<open>n\<close> bytes available on both sides: the block afterwards\<close>
  "memcpy dst src n = take n src @ drop n dst"

definition size_to_int :: "nat \<Rightarrow> int" where
  \<comment> \<open>\<^verbatim>\<open>static_cast<int>(size)\<close> with a 32-bit \<^verbatim>\<open>int\<close>\<close>
  "size_to_int n = sint (word_of_nat n :: 32 word)"

definition execute_with_output ::
  "'fs host \<Rightarrow> heap \<Rightarrow> string option \<Rightarrow> int option \<Rightarrow> 'fs kernel
    \<Rightarrow> (exn + string option) \<times> int option \<times> nat list \<times> 'fs kernel" where
  \<comment> \<open>the returned pointer (a block of bytes, or null), the \<^verbatim>\<open>int\<close> that \<^verbatim>\<open>out_len\<close>
      points to after the call, the sizes the call asked \<^verbatim>\<open>malloc\<close> for (none when the
      call allocates nothing), and the state\<close>
  "execute_with_output h hp command out_len k =
     (case out_len of
        None \<Rightarrow> (Inr None, None, [], k)
      | Some _ \<Rightarrow>
          (case command of
             Some (c # cs) \<Rightarrow>
               (case execute_command h (c # cs) (vfs k) of
                  (Inl e, fs') \<Rightarrow> (Inl e, Some 0, [], k\<lparr>vfs := fs'\<rparr>)
                | (Inr result, fs') \<Rightarrow>
                    (let k' = \<lparr>last_status = code result, vfs = fs'\<rparr>;
                         size = length (output_str result)
                     in if output_str result = [] then (Inr None, Some 0, [], k')
                        else
                          (case malloc hp (size + 1) of
                             None \<Rightarrow> (Inr None, Some 0, [size + 1], k')
                           | Some buffer \<Rightarrow>
                               (Inr (Some ((memcpy buffer (output_str result) size)
                                             [size := CHR 0x00])),
                                Some (size_to_int size), [size + 1], k'))))
           | _ \<Rightarrow> (Inr None, Some 0, [], k\<lparr>last_status := -1\<rparr>)))"

definition get_last_status :: "'fs kernel \<Rightarrow> int" where
  "get_last_status k = last_status k"

text \<open>
  The states the module can be in: it starts with \<open>boot\<close>; the host calls \<open>execute\<close>
  and \<open>execute_with_output\<close> with any arguments; and the filesystem changes behind the
  module's back, through the host or through the file functions of bios.cpp
  (\<^verbatim>\<open>write_file\<close>, \<^verbatim>\<open>delete_file\<close>), none of which assigns \<^verbatim>\<open>last_status\<close>.
\<close>

inductive reachable :: "'fs host \<Rightarrow> 'fs kernel \<Rightarrow> bool" for h :: "'fs host" where
  reach_boot: "reachable h (boot fs0)"
| reach_execute: "reachable h k \<Longrightarrow> reachable h (snd (execute h command k))"
| reach_execute_with_output:
    "reachable h k \<Longrightarrow>
     reachable h (snd (snd (snd (execute_with_output h hp command out_len k))))"
| reach_filesystem: "reachable h k \<Longrightarrow> reachable h (k\<lparr>vfs := fs'\<rparr>)"

section \<open>Notions of the specification\<close>

definition is_space :: "char \<Rightarrow> bool" where
  \<comment> \<open>the whitespace of the C locale: space, tab, newline, vertical tab, form feed, return\<close>
  "is_space c \<longleftrightarrow> c \<in> {CHR '' '', CHR 0x09, CHR 0x0A, CHR 0x0B, CHR 0x0C, CHR 0x0D}"

definition first_token :: "string \<Rightarrow> string" where
  \<comment> \<open>the specification's verb: the first whitespace-delimited token of a line\<close>
  "first_token line = takeWhile (\<lambda>c. \<not> is_space c) (dropWhile is_space line)"

definition registered_verbs :: "string list" where
  "registered_verbs = [''ls'', ''cat'', ''echo'', ''rm'']"

definition trim_spec :: "string \<Rightarrow> string" where
  \<comment> \<open>the specification's trimmed string: no whitespace at either end\<close>
  "trim_spec s = rev (dropWhile is_space (rev (dropWhile is_space s)))"

fun newline_joined :: "string list \<Rightarrow> string" where
  "newline_joined [] = []"
| "newline_joined [l] = l"
| "newline_joined (l # rest) = l @ [NL] @ newline_joined rest"

definition ls_entry :: "'fs host \<Rightarrow> string \<Rightarrow> 'fs \<Rightarrow> string \<Rightarrow> string" where
  \<comment> \<open>the line of one directory entry: a type marker from the entry's \<^verbatim>\<open>stat\<close>, or the
      bare name when it fails\<close>
  "ls_entry h path fs name =
     (case h_stat h ((if last path = CHR ''/'' then path else path @ ''/'') @ name) fs of
        Some True \<Rightarrow> ''d '' @ name
      | Some False \<Rightarrow> ''- '' @ name
      | None \<Rightarrow> name)"

definition reads_back_writes :: "'fs host \<Rightarrow> bool" where
  \<comment> \<open>the host's read-after-write rule: a file that was opened for writing and took every
      byte of \<open>c\<close> has the size of \<open>c\<close>, and reading that many bytes gives \<open>c\<close>\<close>
  "reads_back_writes h \<longleftrightarrow>
     (\<forall>p c fs fs1 fs2.
        h_ofstream_open h p fs = Some fs1 \<longrightarrow>
        h_ofstream_put h p c fs1 = (True, fs2) \<longrightarrow>
        h_ifstream_open h p fs2 \<longrightarrow>
          h_tellg h p fs2 = int (length c) \<and>
          (\<forall>bytes. h_read h p (length c) fs2 = Some bytes \<longrightarrow> bytes = c))"

section \<open>A host in memory\<close>

text \<open>
  A small host on which the commands can be run: regular files by path with their bytes,
  and directories by path with the names \<^verbatim>\<open>readdir\<close> lists. A listed name with no file
  and no directory behind it is an entry whose \<^verbatim>\<open>stat\<close> fails, as for a dangling link.
\<close>

record mem_fs =
  files :: "string \<Rightarrow> string option"
  dirs :: "string \<Rightarrow> string list option"

definition mem_host :: "mem_fs host" where
  "mem_host =
     \<lparr>h_opendir = (\<lambda>p fs. dirs fs p),
      h_stat = (\<lambda>p fs. if files fs p \<noteq> None then Some False
                        else if dirs fs p \<noteq> None then Some True else None),
      h_remove = (\<lambda>p fs. if files fs p \<noteq> None then Some (fs\<lparr>files := (files fs)(p := None)\<rparr>)
                          else None),
      h_ofstream_open = (\<lambda>p fs. if p = [] \<or> dirs fs p \<noteq> None then None
                                 else Some (fs\<lparr>files := (files fs)(p \<mapsto> [])\<rparr>)),
      h_ofstream_put = (\<lambda>p c fs. (True, fs\<lparr>files := (files fs)(p \<mapsto> c)\<rparr>)),
      h_ifstream_open = (\<lambda>p fs. files fs p \<noteq> None),
      h_tellg = (\<lambda>p fs. case files fs p of Some c \<Rightarrow> int (length c) | None \<Rightarrow> -1),
      h_read = (\<lambda>p n fs. case files fs p of
                            Some c \<Rightarrow> (if n \<le> length c then Some (take n c) else None)
                          | None \<Rightarrow> None)\<rparr>"

definition mem_example :: mem_fs where
  "mem_example =
     \<lparr>files = [''/tmp/a.txt'' \<mapsto> ''hello''],
      dirs = [''/'' \<mapsto> [''tmp'', ''ghost''], ''/tmp'' \<mapsto> [''a.txt'']]\<rparr>"

definition mem_heap :: heap where
  "mem_heap = \<lparr>can_malloc = (\<lambda>n. n \<le> 4096), junk = (\<lambda>i. CHR ''?'')\<rparr>"



section \<open>Facts about the string operations and the dispatcher\<close>

lemma find_if_pos_eq:
  "find_if_pos P s =
     (if \<exists>c\<in>set s. P c then Some (length (takeWhile (\<lambda>c. \<not> P c) s)) else None)"
  by (induction s) auto

lemma rfind_if_pos_take:
  "take (pos_plus_one (rfind_if_pos P s)) s = rev (dropWhile (\<lambda>c. \<not> P c) (rev s))"
proof (induction s)
  case Nil
  show ?case by (simp add: pos_plus_one_def)
next
  case (Cons c cs)
  show ?case
  proof (cases "rfind_if_pos P cs")
    case None
    with Cons have "dropWhile (\<lambda>c. \<not> P c) (rev cs) = []"
      by (simp add: pos_plus_one_def)
    then have all: "\<forall>x\<in>set (rev cs). \<not> P x"
      by (simp add: dropWhile_eq_Nil_conv)
    show ?thesis using None all
      by (simp add: pos_plus_one_def dropWhile_append)
  next
    case (Some i)
    with Cons have eq: "take (Suc i) cs = rev (dropWhile (\<lambda>c. \<not> P c) (rev cs))"
      by (simp add: pos_plus_one_def)
    have "dropWhile (\<lambda>c. \<not> P c) (rev cs) \<noteq> []"
    proof
      assume "dropWhile (\<lambda>c. \<not> P c) (rev cs) = []"
      with eq have "take (Suc i) cs = []" by simp
      then have "cs = []" by simp
      with Some show False by simp
    qed
    then have "\<exists>x\<in>set (rev cs). P x"
      by (auto simp: dropWhile_eq_Nil_conv)
    then show ?thesis using Some eq
      by (simp add: pos_plus_one_def dropWhile_append)
  qed
qed

lemma find_char_None: "find_char s ch = None \<longleftrightarrow> ch \<notin> set s"
  by (simp add: find_char_def find_if_pos_eq)

lemma find_char_Some:
  "find_char s ch = Some n \<longleftrightarrow> ch \<in> set s \<and> n = length (takeWhile (\<lambda>c. c \<noteq> ch) s)"
  by (auto simp: find_char_def find_if_pos_eq)

lemma find_char_Some_parts:
  assumes "find_char s ch = Some n"
  shows "substr_n s 0 n = Inr (takeWhile (\<lambda>c. c \<noteq> ch) s)"
    and "substr s (Some (n + 1)) = Inr (tl (dropWhile (\<lambda>c. c \<noteq> ch) s))"
proof -
  from assms have mem: "ch \<in> set s" and n: "n = length (takeWhile (\<lambda>c. c \<noteq> ch) s)"
    by (simp_all add: find_char_Some)
  have "dropWhile (\<lambda>c. c \<noteq> ch) s \<noteq> []"
    using mem by (auto simp: dropWhile_eq_Nil_conv)
  then have "0 < length (dropWhile (\<lambda>c. c \<noteq> ch) s)"
    by simp
  moreover have "n + length (dropWhile (\<lambda>c. c \<noteq> ch) s) = length s"
    unfolding n by (metis length_append takeWhile_dropWhile_id)
  ultimately have le: "n < length s"
    by linarith
  show "substr_n s 0 n = Inr (takeWhile (\<lambda>c. c \<noteq> ch) s)"
    unfolding n by (simp add: substr_n_def takeWhile_eq_take [symmetric])
  have "drop (Suc n) s = tl (drop n s)"
    by (simp add: drop_Suc tl_drop)
  also have "drop n s = dropWhile (\<lambda>c. c \<noteq> ch) s"
    unfolding n by (rule dropWhile_eq_drop [symmetric])
  finally show "substr s (Some (n + 1)) = Inr (tl (dropWhile (\<lambda>c. c \<noteq> ch) s))"
    using le by (simp add: substr_def)
qed

lemma split_command_no_space:
  "CHR '' '' \<notin> set command \<Longrightarrow> split_command command = Inr (command, [])"
  by (simp add: split_command_def find_char_None [THEN iffD2] bind_exn_def)

lemma split_command_space:
  assumes "CHR '' '' \<in> set command"
  shows "split_command command =
     Inr (takeWhile (\<lambda>c. c \<noteq> CHR '' '') command,
          tl (dropWhile (\<lambda>c. c \<noteq> CHR '' '') command))"
proof -
  obtain n where fc: "find_char command (CHR '' '') = Some n"
    using assms by (simp add: find_char_Some)
  show ?thesis
    unfolding split_command_def Let_def fc option.case find_char_Some_parts [OF fc]
      bind_exn_def sum.case
    by simp
qed

lemma split_command_eq:
  "split_command command =
     Inr (takeWhile (\<lambda>c. c \<noteq> CHR '' '') command,
          tl (dropWhile (\<lambda>c. c \<noteq> CHR '' '') command))"
proof (cases "CHR '' '' \<in> set command")
  case True
  then show ?thesis by (rule split_command_space)
next
  case False
  then have tw: "takeWhile (\<lambda>c. c \<noteq> CHR '' '') command = command"
    and dw: "dropWhile (\<lambda>c. c \<noteq> CHR '' '') command = []"
    by auto
  show ?thesis
    unfolding tw dw using False by (simp add: split_command_no_space)
qed

lemma registry_None:
  "(command_registry cmd :: 'fs CommandFunction option) = None \<longleftrightarrow> cmd \<notin> set registered_verbs"
  by (simp add: command_registry_def registered_verbs_def)

lemma registry_Some:
  "command_registry cmd = Some (f :: 'fs CommandFunction) \<Longrightarrow>
     cmd = ''ls'' \<and> f = ls \<or> cmd = ''cat'' \<and> f = cat \<or>
     cmd = ''echo'' \<and> f = echo \<or> cmd = ''rm'' \<and> f = rm"
  by (auto simp: command_registry_def split: if_splits)

lemma execute_command_eq:
  "execute_command h command fs =
     (case command_registry (takeWhile (\<lambda>c. c \<noteq> CHR '' '') command) of
        None \<Rightarrow> (Inr \<lparr>code = -1, output_str = ''Unknown command''\<rparr>, fs)
      | Some handler \<Rightarrow>
          handler h (tl (dropWhile (\<lambda>c. c \<noteq> CHR '' '') command)) fs)"
  by (simp add: execute_command_def split_command_eq)

lemma first_token_append:
  assumes "v \<in> set registered_verbs" and "r = [] \<or> (\<exists>r'. r = CHR '' '' # r')"
  shows "first_token (v @ r) = v"
  using assms by (auto simp: first_token_def is_space_def registered_verbs_def)

lemma first_token_verb:
  assumes "takeWhile (\<lambda>c. c \<noteq> CHR '' '') command \<in> set registered_verbs"
  shows "first_token command = takeWhile (\<lambda>c. c \<noteq> CHR '' '') command"
proof -
  define v where "v = takeWhile (\<lambda>c. c \<noteq> CHR '' '') command"
  define r where "r = dropWhile (\<lambda>c. c \<noteq> CHR '' '') command"
  have split: "command = v @ r"
    by (simp add: v_def r_def)
  have "r = [] \<or> hd r = CHR '' ''"
    unfolding r_def using hd_dropWhile [of "\<lambda>c. c \<noteq> CHR '' ''" command] by blast
  then have "r = [] \<or> (\<exists>r'. r = CHR '' '' # r')"
    by (cases r) auto
  with assms have "first_token (v @ r) = v"
    unfolding v_def [symmetric] by (rule first_token_append)
  then have "first_token command = v"
    by (simp only: split [symmetric])
  then show ?thesis
    by (simp only: v_def)
qed

lemma ls_loop_eq:
  "ls_loop h path fs entries out =
     out @ concat (map (\<lambda>name. ls_entry h path fs name @ [NL]) entries)"
  by (induction entries arbitrary: out)
    (auto simp: ls_entry_def Let_def split: option.splits bool.splits)

lemma echo_redirect_eq:
  assumes "find_char args (CHR ''>'') = Some gt_pos"
  shows "echo_redirect args gt_pos =
     (let post = tl (dropWhile (\<lambda>c. c \<noteq> CHR ''>'') args) in
        if set post \<subseteq> {CHR '' '', TAB} then Inl Out_of_range
        else Inr (rev (dropWhile (\<lambda>c. c \<in> {CHR '' '', TAB})
                        (rev (takeWhile (\<lambda>c. c \<noteq> CHR ''>'') args))),
                  dropWhile (\<lambda>c. c \<in> {CHR '' '', TAB}) post))"
proof -
  define pre where "pre = takeWhile (\<lambda>c. c \<noteq> CHR ''>'') args"
  define post where "post = tl (dropWhile (\<lambda>c. c \<noteq> CHR ''>'') args)"
  have content: "substr_n pre 0 (pos_plus_one (find_last_not_of pre [CHR '' '', TAB])) =
      Inr (rev (dropWhile (\<lambda>c. c \<in> {CHR '' '', TAB}) (rev pre)))"
    using rfind_if_pos_take [of "\<lambda>c. c \<notin> set [CHR '' '', TAB]" pre]
    by (simp add: substr_n_def find_last_not_of_def)
  have filename: "substr post (find_first_not_of post [CHR '' '', TAB]) =
      (if set post \<subseteq> {CHR '' '', TAB} then Inl Out_of_range
       else Inr (dropWhile (\<lambda>c. c \<in> {CHR '' '', TAB}) post))"
  proof (cases "set post \<subseteq> {CHR '' '', TAB}")
    case True
    then have "\<not> (\<exists>c\<in>set post. c \<notin> set [CHR '' '', TAB])"
      by auto
    then have "find_first_not_of post [CHR '' '', TAB] = None"
      unfolding find_first_not_of_def find_if_pos_eq by (simp only: if_False)
    with True show ?thesis
      by (simp add: substr_def)
  next
    case False
    then have "\<exists>c\<in>set post. c \<notin> set [CHR '' '', TAB]"
      by auto
    then have "find_first_not_of post [CHR '' '', TAB] =
        Some (length (takeWhile (\<lambda>c. \<not> c \<notin> set [CHR '' '', TAB]) post))"
      unfolding find_first_not_of_def find_if_pos_eq by (simp only: if_True)
    moreover have "length (takeWhile (\<lambda>c. \<not> c \<notin> set [CHR '' '', TAB]) post) \<le> length post"
      by (rule length_takeWhile_le)
    moreover have "drop (length (takeWhile (\<lambda>c. \<not> c \<notin> set [CHR '' '', TAB]) post)) post =
        dropWhile (\<lambda>c. \<not> c \<notin> set [CHR '' '', TAB]) post"
      by (rule dropWhile_eq_drop [symmetric])
    ultimately show ?thesis
      using False by (simp add: substr_def)
  qed
  show ?thesis
    unfolding echo_redirect_def find_char_Some_parts [OF assms] bind_exn_def sum.case
      pre_def [symmetric] post_def [symmetric] content filename Let_def
    by simp
qed

subsection \<open>The boundary: the copied block and the status codes\<close>


text \<open>Beyond that range the cast wraps around: a size of \<open>2 ^ 31\<close> is stored as a negative length.\<close>

lemma size_to_int_wraps: "size_to_int (2 ^ 31) = - (2 ^ 31)"
  by (simp add: size_to_int_def)


lemma handler_codes:
  "rm h args fs = (Inr r, fs') \<Longrightarrow> code r = 0 \<or> code r = -1"
  "cat h args fs = (Inr r, fs') \<Longrightarrow> code r = 0 \<or> code r = -1"
  "echo h args fs = (Inr r, fs') \<Longrightarrow> code r = 0 \<or> code r = -1"
  "ls h args fs = (Inr r, fs') \<Longrightarrow> code r = 0 \<or> code r = -1"
  by (auto simp: rm_def cat_def echo_def ls_def Let_def
      split: if_splits option.splits sum.splits prod.splits)

lemma execute_command_codes:
  assumes "execute_command h command fs = (Inr r, fs')"
  shows "code r = 0 \<or> code r = -1"
proof (cases "command_registry (takeWhile (\<lambda>c. c \<noteq> CHR '' '') command)
    :: 'a CommandFunction option")
  case None
  with assms show ?thesis
    by (auto simp: execute_command_eq)
next
  case (Some f)
  with assms have "f h (tl (dropWhile (\<lambda>c. c \<noteq> CHR '' '') command)) fs = (Inr r, fs')"
    by (simp add: execute_command_eq)
  with registry_Some [OF Some] show ?thesis
    by (auto dest: handler_codes)
qed

lemma execute_last_status:
  "last_status (snd (execute h command k)) = last_status k \<or>
   last_status (snd (execute h command k)) = 0 \<or>
   last_status (snd (execute h command k)) = -1"
proof (cases "\<exists>c cs. command = Some (c # cs)")
  case False
  then have "execute h command k = (Inr (-1), k\<lparr>last_status := -1\<rparr>)"
    by (auto simp: execute_def split: option.splits list.splits)
  then show ?thesis by simp
next
  case True
  then obtain c cs where c: "command = Some (c # cs)" by blast
  obtain res fs' where e: "execute_command h (c # cs) (vfs k) = (res, fs')"
    by (cases "execute_command h (c # cs) (vfs k)")
  show ?thesis
  proof (cases res)
    case (Inl x)
    with c e show ?thesis by (simp add: execute_def)
  next
    case (Inr r)
    have "code r = 0 \<or> code r = -1"
      using execute_command_codes [of h "c # cs" "vfs k" r fs'] e Inr by simp
    with c e Inr show ?thesis by (auto simp: execute_def)
  qed
qed

lemma execute_with_output_last_status:
  "last_status (snd (snd (snd (execute_with_output h hp command out_len k)))) = last_status k \<or>
   last_status (snd (snd (snd (execute_with_output h hp command out_len k)))) = 0 \<or>
   last_status (snd (snd (snd (execute_with_output h hp command out_len k)))) = -1"
proof (cases out_len)
  case None
  then show ?thesis by (simp add: execute_with_output_def)
next
  case (Some v)
  show ?thesis
  proof (cases "\<exists>c cs. command = Some (c # cs)")
    case False
    then have "snd (snd (snd (execute_with_output h hp command out_len k))) = k\<lparr>last_status := -1\<rparr>"
      using Some by (auto simp: execute_with_output_def split: option.splits list.splits)
    then show ?thesis by simp
  next
    case True
    then obtain c cs where c: "command = Some (c # cs)" by blast
    obtain res fs' where e: "execute_command h (c # cs) (vfs k) = (res, fs')"
      by (cases "execute_command h (c # cs) (vfs k)")
    show ?thesis
    proof (cases res)
      case (Inl x)
      with c e Some show ?thesis by (simp add: execute_with_output_def)
    next
      case (Inr r)
      have "code r = 0 \<or> code r = -1"
      using execute_command_codes [of h "c # cs" "vfs k" r fs'] e Inr by simp
      with c e Inr Some show ?thesis
        by (auto simp: execute_with_output_def Let_def split: option.splits)
    qed
  qed
qed

lemma reachable_last_status:
  "reachable h k \<Longrightarrow> last_status k = 0 \<or> last_status k = -1"
proof (induction rule: reachable.induct)
  case (reach_boot fs0)
  show ?case by (simp add: boot_def)
next
  case (reach_execute k command)
  with execute_last_status [of h command k] show ?case by auto
next
  case (reach_execute_with_output k hp command out_len)
  with execute_with_output_last_status [of h hp command out_len k] show ?case by auto
next
  case (reach_filesystem k fs')
  then show ?case by simp
qed

subsection \<open>The redirect form of echo, and cat\<close>

lemma echo_redirect_writes:
  assumes "CHR ''>'' \<in> set args"
    and "\<not> set (tl (dropWhile (\<lambda>c. c \<noteq> CHR ''>'') args)) \<subseteq> {CHR '' '', TAB}"
  shows "echo h args fs =
     (let content = rev (dropWhile (\<lambda>c. c \<in> {CHR '' '', TAB})
                      (rev (takeWhile (\<lambda>c. c \<noteq> CHR ''>'') args)));
          filename = dropWhile (\<lambda>c. c \<in> {CHR '' '', TAB})
                      (tl (dropWhile (\<lambda>c. c \<noteq> CHR ''>'') args))
      in case h_ofstream_open h filename fs of
           None \<Rightarrow> (Inr \<lparr>code = -1, output_str = ''Failed to open file for writing''\<rparr>, fs)
         | Some fs1 \<Rightarrow>
             (Inr \<lparr>code = 0, output_str = ''''\<rparr>, snd (h_ofstream_put h filename content fs1)))"
proof -
  obtain gt_pos where fc: "find_char args (CHR ''>'') = Some gt_pos"
    using assms(1) by (simp add: find_char_Some)
  show ?thesis
    using assms(2) by (simp add: echo_def fc echo_redirect_eq [OF fc] Let_def)
qed

lemma cat_reads_whole_file:
  assumes "args \<noteq> []" and "h_ifstream_open h args fs"
    and "h_tellg h args fs = int (length bytes)"
    and "h_read h args (length bytes) fs = Some bytes"
  shows "cat h args fs = (Inr \<lparr>code = 0, output_str = bytes\<rparr>, fs)"
  using assms by (simp add: cat_def read_into_def)

subsection \<open>The host in memory\<close>

lemma mem_host_reads_back_writes: "reads_back_writes mem_host"
  by (simp add: reads_back_writes_def mem_host_def split: if_splits)

lemma ls_root_listing:
  "ls mem_host [] mem_example =
     (Inr \<lparr>code = 0, output_str = ''d tmp'' @ [NL] @ ''ghost'' @ [NL]\<rparr>, mem_example)"
  by (simp add: ls_def mem_host_def mem_example_def)

lemma execute_with_output_null_out_len:
  "execute_with_output h hp command None k = (Inr None, None, [], k)"
  by (simp add: execute_with_output_def)

subsection \<open>The results of execute_with_output\<close>





section \<open>The claims\<close>

text \<open>
  C1. A command line whose first whitespace-delimited token is not one of the registered
  verbs \<open>ls\<close>, \<open>cat\<close>, \<open>echo\<close>, \<open>rm\<close> gets the result with code -1 and output
  "Unknown command", and the filesystem after the call is the filesystem before it. The
  result is the same for every host \<open>h\<close>: no handler, and so no primitive of the host,
  takes part in it.
\<close>

theorem unknown_verb_rejected:
  assumes "first_token command \<notin> set registered_verbs"
  shows "execute_command h command fs =
     (Inr \<lparr>code = -1, output_str = ''Unknown command''\<rparr>, fs)"
proof -
  have "takeWhile (\<lambda>c. c \<noteq> CHR '' '') command \<notin> set registered_verbs"
    using assms first_token_verb [of command] by auto
  then have "(command_registry (takeWhile (\<lambda>c. c \<noteq> CHR '' '') command)
      :: 'a CommandFunction option) = None"
    by (simp add: registry_None)
  then show ?thesis
    by (simp add: execute_command_eq)
qed

theorem unknown_verb_rejected_witness:
  "first_token ''frobnicate /tmp'' \<notin> set registered_verbs \<and>
   execute_command mem_host ''frobnicate /tmp'' mem_example =
     (Inr \<lparr>code = -1, output_str = ''Unknown command''\<rparr>, mem_example)"
  using unknown_verb_rejected [of "''frobnicate /tmp''" mem_host mem_example]
  by (simp add: first_token_def is_space_def registered_verbs_def)

text \<open>
  C2, as amended. \<open>last_status\<close> is 0 at the start. A call of \<open>execute\<close> that returns a
  code leaves that code in \<open>last_status\<close>: -1 when the command is null or empty, the code
  of the dispatched result otherwise, the result of an unknown verb included. A call of
  \<open>execute_with_output\<close> with an \<open>out_len\<close> that is not null leaves -1 there when the
  command is null or empty, and the code of the dispatched result when the dispatch
  returns one. A call of \<open>execute_with_output\<close> with a null \<open>out_len\<close> returns at once,
  whatever the command: it dispatches nothing, produces no code and leaves
  \<open>last_status\<close> as it was. After \<open>execute\<close> on the empty string and then on "echo hi",
  \<open>get_last_status\<close> is 0. What a dispatch that ends with an exception leaves behind is
  not part of this statement.
\<close>

theorem last_status_tracks_latest_call:
  "get_last_status (boot start) = 0 \<and>
   (execute h command k = (Inr v, k') \<longrightarrow> get_last_status k' = v) \<and>
   (command = None \<or> command = Some [] \<longrightarrow>
      execute h command k = (Inr (-1), k\<lparr>last_status := -1\<rparr>)) \<and>
   (cmd \<noteq> [] \<longrightarrow> execute_command h cmd (vfs k) = (Inr r, fs') \<longrightarrow>
      execute h (Some cmd) k = (Inr (code r), \<lparr>last_status = code r, vfs = fs'\<rparr>)) \<and>
   (command = None \<or> command = Some [] \<longrightarrow>
      snd (snd (snd (execute_with_output h hp command (Some v0) k))) =
        k\<lparr>last_status := -1\<rparr>) \<and>
   (cmd \<noteq> [] \<longrightarrow> execute_command h cmd (vfs k) = (Inr r, fs') \<longrightarrow>
      get_last_status (snd (snd (snd (execute_with_output h hp (Some cmd) (Some v0) k)))) =
        code r) \<and>
   execute_with_output h hp command None k = (Inr None, None, [], k) \<and>
   execute h (Some ''frobnicate'') k = (Inr (-1), k\<lparr>last_status := -1\<rparr>) \<and>
   get_last_status
     (snd (execute h (Some ''echo hi'') (snd (execute h (Some '''') (boot start))))) = 0"
proof -
  have ret: "get_last_status k' = v" if "execute h command k = (Inr v, k')"
    using that
    by (auto simp: execute_def get_last_status_def
        split: option.splits list.splits sum.splits prod.splits)
  have rej: "execute h command k = (Inr (-1), k\<lparr>last_status := -1\<rparr>)"
    if "command = None \<or> command = Some []"
    using that by (auto simp: execute_def)
  have run: "execute h (Some cmd) k = (Inr (code r), \<lparr>last_status = code r, vfs = fs'\<rparr>)"
    if "cmd \<noteq> []" "execute_command h cmd (vfs k) = (Inr r, fs')"
    using that by (cases cmd) (simp_all add: execute_def)
  have rej': "snd (snd (snd (execute_with_output h hp command (Some v0) k))) =
      k\<lparr>last_status := -1\<rparr>"
    if "command = None \<or> command = Some []"
    using that by (auto simp: execute_with_output_def)
  have run': "get_last_status (snd (snd (snd (execute_with_output h hp (Some cmd) (Some v0) k)))) =
      code r"
    if "cmd \<noteq> []" "execute_command h cmd (vfs k) = (Inr r, fs')"
    using that
    by (cases cmd)
      (simp_all add: execute_with_output_def get_last_status_def Let_def split: option.splits)
  have null_len: "execute_with_output h hp command None k = (Inr None, None, [], k)"
    by (rule execute_with_output_null_out_len)
  have unknown: "execute h (Some ''frobnicate'') k = (Inr (-1), k\<lparr>last_status := -1\<rparr>)"
    by (simp add: execute_def execute_command_eq command_registry_def)
  have twice: "get_last_status
     (snd (execute h (Some ''echo hi'') (snd (execute h (Some '''') (boot start))))) = 0"
    by (simp add: execute_def execute_command_eq command_registry_def echo_def find_char_def
        get_last_status_def)
  show ?thesis
    using ret rej run rej' run' null_len unknown twice
    by (simp add: get_last_status_def boot_def)
qed

theorem last_status_tracks_latest_call_witness:
  "execute mem_host (Some ''rm /tmp/b.txt'') (boot mem_example) =
     (Inr (-1), \<lparr>last_status = -1, vfs = mem_example\<rparr>) \<and>
   get_last_status \<lparr>last_status = -1, vfs = mem_example\<rparr> = -1 \<and>
   execute mem_host (Some []) (boot mem_example) =
     (Inr (-1), \<lparr>last_status = -1, vfs = mem_example\<rparr>) \<and>
   ''cat /tmp/a.txt'' \<noteq> [] \<and>
   execute_command mem_host ''cat /tmp/a.txt'' (vfs \<lparr>last_status = -1, vfs = mem_example\<rparr>) =
     (Inr \<lparr>code = 0, output_str = ''hello''\<rparr>, mem_example) \<and>
   execute mem_host (Some ''cat /tmp/a.txt'') \<lparr>last_status = -1, vfs = mem_example\<rparr> =
     (Inr 0, \<lparr>last_status = 0, vfs = mem_example\<rparr>) \<and>
   snd (snd (snd (execute_with_output mem_host mem_heap None (Some 7) (boot mem_example)))) =
     \<lparr>last_status = -1, vfs = mem_example\<rparr> \<and>
   get_last_status (snd (snd (snd (execute_with_output mem_host mem_heap
     (Some ''cat /tmp/a.txt'') (Some 7) \<lparr>last_status = -1, vfs = mem_example\<rparr>)))) = 0"
proof -
  have rm_run: "execute mem_host (Some ''rm /tmp/b.txt'') (boot mem_example) =
     (Inr (-1), \<lparr>last_status = -1, vfs = mem_example\<rparr>)"
    by (simp add: execute_def execute_command_eq command_registry_def rm_def mem_host_def
        mem_example_def boot_def)
  have cat_run: "execute_command mem_host ''cat /tmp/a.txt''
      (vfs \<lparr>last_status = -1, vfs = mem_example\<rparr>) =
      (Inr \<lparr>code = 0, output_str = ''hello''\<rparr>, mem_example)"
    by (simp add: execute_command_eq command_registry_def cat_def read_into_def mem_host_def
        mem_example_def)
  show ?thesis
    using rm_run cat_run
      last_status_tracks_latest_call [where h = mem_host and start = mem_example
        and command = "Some ''rm /tmp/b.txt''" and k = "boot mem_example" and v = "-1"
        and k' = "\<lparr>last_status = -1, vfs = mem_example\<rparr>" and cmd = "''cat /tmp/a.txt''"
        and hp = mem_heap and v0 = 7]
      last_status_tracks_latest_call [where h = mem_host and start = mem_example
        and command = "Some []" and k = "boot mem_example" and cmd = "''cat /tmp/a.txt''"
        and hp = mem_heap and v0 = 7]
      last_status_tracks_latest_call [where h = mem_host and start = mem_example
        and command = "None" and k = "boot mem_example" and cmd = "''cat /tmp/a.txt''"
        and hp = mem_heap and v0 = 7]
      last_status_tracks_latest_call [where h = mem_host and start = mem_example
        and command = "None" and k = "\<lparr>last_status = -1, vfs = mem_example\<rparr>"
        and cmd = "''cat /tmp/a.txt''" and r = "\<lparr>code = 0, output_str = ''hello''\<rparr>"
        and fs' = mem_example and hp = mem_heap and v0 = 7]
    by (simp add: boot_def)
qed

text \<open>
  C2 as stated fails. After an unknown command has set \<open>last_status\<close> to -1,
  \<open>execute_with_output\<close> on the command "echo x" (not null, not empty, code 0 when
  dispatched) with a null \<open>out_len\<close> leaves \<open>last_status\<close> at -1; on a null command with
  a null \<open>out_len\<close> it leaves the 0 of the start, not the -1 of a rejected input. And
  \<open>execute\<close> on "echo hi >" reaches the dispatch, which throws, and \<open>last_status\<close> keeps
  the -1 of the call before.
\<close>

theorem last_status_stale_counterexample:
  "execute mem_host (Some ''frobnicate'') (boot mem_example) =
     (Inr (-1), \<lparr>last_status = -1, vfs = mem_example\<rparr>) \<and>
   execute_command mem_host ''echo x'' mem_example =
     (Inr \<lparr>code = 0, output_str = ''x''\<rparr>, mem_example) \<and>
   get_last_status (snd (snd (snd (execute_with_output mem_host mem_heap (Some ''echo x'') None
     \<lparr>last_status = -1, vfs = mem_example\<rparr>)))) = -1 \<and>
   get_last_status (snd (snd (snd (execute_with_output mem_host mem_heap None None
     (boot mem_example))))) = 0 \<and>
   execute mem_host (Some ''echo hi >'') \<lparr>last_status = -1, vfs = mem_example\<rparr> =
     (Inl Out_of_range, \<lparr>last_status = -1, vfs = mem_example\<rparr>)"
proof -
  obtain gt_pos where fc: "find_char ''hi >'' (CHR ''>'') = Some gt_pos"
    by (simp add: find_char_Some)
  have thrown: "echo mem_host ''hi >'' mem_example = (Inl Out_of_range, mem_example)"
    by (simp add: echo_def fc echo_redirect_eq [OF fc])
  have dispatch_thrown:
    "execute_command mem_host ''echo hi >'' mem_example = (Inl Out_of_range, mem_example)"
    by (simp add: execute_command_eq command_registry_def thrown)
  have dispatch_x: "execute_command mem_host ''echo x'' mem_example =
      (Inr \<lparr>code = 0, output_str = ''x''\<rparr>, mem_example)"
    by (simp add: execute_command_eq command_registry_def echo_def find_char_def)
  have unknown: "execute mem_host (Some ''frobnicate'') (boot mem_example) =
      (Inr (-1), \<lparr>last_status = -1, vfs = mem_example\<rparr>)"
    by (simp add: execute_def execute_command_eq command_registry_def boot_def)
  have null_len: "get_last_status (snd (snd (snd (execute_with_output mem_host mem_heap
      (Some ''echo x'') None \<lparr>last_status = -1, vfs = mem_example\<rparr>)))) = -1"
    by (simp add: execute_with_output_def get_last_status_def)
  have null_both: "get_last_status (snd (snd (snd (execute_with_output mem_host mem_heap None None
      (boot mem_example))))) = 0"
    by (simp add: execute_with_output_def get_last_status_def boot_def)
  have stale: "execute mem_host (Some ''echo hi >'') \<lparr>last_status = -1, vfs = mem_example\<rparr> =
      (Inl Out_of_range, \<lparr>last_status = -1, vfs = mem_example\<rparr>)"
    by (simp add: execute_def dispatch_thrown)
  show ?thesis
    using unknown dispatch_x null_len null_both stale by blast
qed

text \<open>
  C3. The round trip of "echo payload > /tmp/f.txt" and "cat /tmp/f.txt", on a host that
  reads back what was written. When the host opens /tmp/f.txt for writing and stores
  every byte, the echo command is that write and nothing else: it opens exactly
  "/tmp/f.txt" (the filename, left-trimmed), puts exactly "payload" (the content,
  right-trimmed) and returns code 0 with empty output. When the cat command that follows
  succeeds, its output is "payload", byte for byte, and it leaves the filesystem as it
  found it.
\<close>

theorem echo_cat_round_trip:
  assumes "reads_back_writes h"
    and "h_ofstream_open h ''/tmp/f.txt'' fs = Some fs1"
    and "h_ofstream_put h ''/tmp/f.txt'' ''payload'' fs1 = (True, fs2)"
    and "execute_command h ''cat /tmp/f.txt'' fs2 = (Inr r, fs3)"
    and "code r = 0"
  shows "execute_command h ''echo payload > /tmp/f.txt'' fs =
       (Inr \<lparr>code = 0, output_str = ''''\<rparr>, fs2) \<and>
     output_str r = ''payload'' \<and> fs3 = fs2"
proof -
  obtain gt_pos where fc: "find_char ''payload > /tmp/f.txt'' (CHR ''>'') = Some gt_pos"
    by (simp add: find_char_Some)
  have parts: "echo_redirect ''payload > /tmp/f.txt'' gt_pos = Inr (''payload'', ''/tmp/f.txt'')"
    by (simp add: echo_redirect_eq [OF fc])
  have w: "execute_command h ''echo payload > /tmp/f.txt'' fs =
      (Inr \<lparr>code = 0, output_str = ''''\<rparr>, fs2)"
    using assms(2,3)
    by (simp add: execute_command_eq command_registry_def echo_def fc parts)
  have c: "cat h ''/tmp/f.txt'' fs2 = (Inr r, fs3)"
    using assms(4) by (simp add: execute_command_eq command_registry_def)
  have opened: "h_ifstream_open h ''/tmp/f.txt'' fs2"
    using c assms(5) by (auto simp: cat_def split: if_splits)
  have law: "h_tellg h ''/tmp/f.txt'' fs2 = int (length ''payload'') \<and>
      (\<forall>bytes. h_read h ''/tmp/f.txt'' (length ''payload'') fs2 = Some bytes \<longrightarrow>
         bytes = ''payload'')"
    using assms(1,2,3) opened unfolding reads_back_writes_def by blast
  have len: "length ''payload'' = (7::nat)"
    by simp
  from law have size: "h_tellg h ''/tmp/f.txt'' fs2 = 7"
    and bytes: "\<And>bytes. h_read h ''/tmp/f.txt'' 7 fs2 = Some bytes \<Longrightarrow> bytes = ''payload''"
    unfolding len by simp_all
  have "output_str r = ''payload'' \<and> fs3 = fs2"
    using c assms(5) opened size bytes
    by (auto simp: cat_def read_into_def split: option.splits)
  with w show ?thesis by simp
qed

theorem echo_cat_round_trip_witness:
  "reads_back_writes mem_host \<and>
   h_ofstream_open mem_host ''/tmp/f.txt'' mem_example =
     Some (mem_example\<lparr>files := [''/tmp/a.txt'' \<mapsto> ''hello'', ''/tmp/f.txt'' \<mapsto> '''']\<rparr>) \<and>
   h_ofstream_put mem_host ''/tmp/f.txt'' ''payload''
       (mem_example\<lparr>files := [''/tmp/a.txt'' \<mapsto> ''hello'', ''/tmp/f.txt'' \<mapsto> '''']\<rparr>) =
     (True, mem_example\<lparr>files := [''/tmp/a.txt'' \<mapsto> ''hello'', ''/tmp/f.txt'' \<mapsto> ''payload'']\<rparr>) \<and>
   execute_command mem_host ''cat /tmp/f.txt''
       (mem_example\<lparr>files := [''/tmp/a.txt'' \<mapsto> ''hello'', ''/tmp/f.txt'' \<mapsto> ''payload'']\<rparr>) =
     (Inr \<lparr>code = 0, output_str = ''payload''\<rparr>,
      mem_example\<lparr>files := [''/tmp/a.txt'' \<mapsto> ''hello'', ''/tmp/f.txt'' \<mapsto> ''payload'']\<rparr>) \<and>
   execute_command mem_host ''echo payload > /tmp/f.txt'' mem_example =
     (Inr \<lparr>code = 0, output_str = ''''\<rparr>,
      mem_example\<lparr>files := [''/tmp/a.txt'' \<mapsto> ''hello'', ''/tmp/f.txt'' \<mapsto> ''payload'']\<rparr>)"
proof -
  let ?fs1 = "mem_example\<lparr>files := [''/tmp/a.txt'' \<mapsto> ''hello'', ''/tmp/f.txt'' \<mapsto> '''']\<rparr>"
  let ?fs2 = "mem_example\<lparr>files := [''/tmp/a.txt'' \<mapsto> ''hello'', ''/tmp/f.txt'' \<mapsto> ''payload'']\<rparr>"
  have law: "reads_back_writes mem_host"
    by (rule mem_host_reads_back_writes)
  have opn: "h_ofstream_open mem_host ''/tmp/f.txt'' mem_example = Some ?fs1"
    by (simp add: mem_host_def mem_example_def)
  have put: "h_ofstream_put mem_host ''/tmp/f.txt'' ''payload'' ?fs1 = (True, ?fs2)"
    by (simp add: mem_host_def mem_example_def)
  have rd: "execute_command mem_host ''cat /tmp/f.txt'' ?fs2 =
      (Inr \<lparr>code = 0, output_str = ''payload''\<rparr>, ?fs2)"
    by (simp add: execute_command_eq command_registry_def cat_def read_into_def mem_host_def
        mem_example_def)
  show ?thesis
    using echo_cat_round_trip [OF law opn put rd] law opn put rd by simp
qed

text \<open>
  C4, as amended. For a command line that contains a space, the argument string the
  dispatcher passes to the handler is the rest of the line after the first space, exactly
  as it stands: the line is the verb, that space, and the argument, and the verb holds no
  space. Nothing is trimmed, so whitespace that follows the first space, or that ends the
  line, reaches the handler.
\<close>

theorem handler_argument_is_remainder:
  assumes "CHR '' '' \<in> set command"
  shows "\<exists>cmd args.
     command = cmd @ '' '' @ args \<and> CHR '' '' \<notin> set cmd \<and>
     split_command command = Inr (cmd, args) \<and>
     execute_command h command fs =
       (case command_registry cmd of
          None \<Rightarrow> (Inr \<lparr>code = -1, output_str = ''Unknown command''\<rparr>, fs)
        | Some handler \<Rightarrow> handler h args fs)"
proof -
  define cmd where "cmd = takeWhile (\<lambda>c. c \<noteq> CHR '' '') command"
  define rest where "rest = dropWhile (\<lambda>c. c \<noteq> CHR '' '') command"
  have "rest \<noteq> []"
    unfolding rest_def using assms by (auto simp: dropWhile_eq_Nil_conv)
  moreover have "rest \<noteq> [] \<Longrightarrow> hd rest = CHR '' ''"
    unfolding rest_def using hd_dropWhile [of "\<lambda>c. c \<noteq> CHR '' ''" command] by blast
  ultimately have rest: "rest = CHR '' '' # tl rest"
    by (cases rest) auto
  have "command = cmd @ rest"
    by (simp add: cmd_def rest_def)
  with rest have "command = cmd @ '' '' @ tl rest"
    by simp
  moreover have "CHR '' '' \<notin> set cmd"
    unfolding cmd_def by (auto dest: set_takeWhileD)
  moreover have "split_command command = Inr (cmd, tl rest)"
    by (simp add: split_command_eq cmd_def rest_def)
  moreover have "execute_command h command fs =
       (case command_registry cmd of
          None \<Rightarrow> (Inr \<lparr>code = -1, output_str = ''Unknown command''\<rparr>, fs)
        | Some handler \<Rightarrow> handler h (tl rest) fs)"
    unfolding cmd_def rest_def by (rule execute_command_eq)
  ultimately show ?thesis
    by blast
qed

theorem handler_argument_is_remainder_witness:
  "CHR '' '' \<in> set ''echo  hi '' \<and>
   (\<exists>cmd args.
     ''echo  hi '' = cmd @ '' '' @ args \<and> CHR '' '' \<notin> set cmd \<and>
     split_command ''echo  hi '' = Inr (cmd, args) \<and>
     execute_command mem_host ''echo  hi '' mem_example =
       (case command_registry cmd of
          None \<Rightarrow> (Inr \<lparr>code = -1, output_str = ''Unknown command''\<rparr>, mem_example)
        | Some handler \<Rightarrow> handler mem_host args mem_example))"
  using handler_argument_is_remainder [of "''echo  hi ''" mem_host mem_example]
  by simp

text \<open>
  C4 as stated fails: on "echo", two spaces, "hi", one space, the handler receives " hi "
  with its leading and its trailing space (and echoes it back so), not the trimmed "hi".
\<close>

theorem handler_argument_untrimmed_counterexample:
  "split_command ''echo  hi '' = Inr (''echo'', '' hi '') \<and>
   trim_spec '' hi '' = ''hi'' \<and>
   '' hi '' \<noteq> trim_spec '' hi '' \<and>
   execute_command mem_host ''echo  hi '' mem_example =
     (Inr \<lparr>code = 0, output_str = '' hi ''\<rparr>, mem_example)"
  by (simp add: split_command_eq trim_spec_def is_space_def execute_command_eq
      command_registry_def echo_def find_char_def)

text \<open>
  C5. On an argument string with no \<open>>\<close> in it the echo handler returns code 0 with the
  argument unchanged as output, and the filesystem after the call is the filesystem
  before it; so does the dispatcher on the line \<open>echo\<close>, a space, and that argument, and
  in particular on "echo just text".
\<close>

theorem echo_without_redirect:
  assumes "CHR ''>'' \<notin> set args"
  shows "echo h args fs = (Inr \<lparr>code = 0, output_str = args\<rparr>, fs) \<and>
     execute_command h (''echo '' @ args) fs = (Inr \<lparr>code = 0, output_str = args\<rparr>, fs) \<and>
     execute_command h ''echo just text'' fs =
       (Inr \<lparr>code = 0, output_str = ''just text''\<rparr>, fs)"
proof -
  have e: "echo h args fs = (Inr \<lparr>code = 0, output_str = args\<rparr>, fs)"
    using assms by (simp add: echo_def find_char_None [THEN iffD2])
  have "execute_command h (''echo '' @ args) fs = echo h args fs"
    by (simp add: execute_command_eq command_registry_def)
  moreover have "execute_command h ''echo just text'' fs =
      (Inr \<lparr>code = 0, output_str = ''just text''\<rparr>, fs)"
    by (simp add: execute_command_eq command_registry_def echo_def find_char_def)
  ultimately show ?thesis
    using e by simp
qed

theorem echo_without_redirect_witness:
  "CHR ''>'' \<notin> set ''a  b '' \<and>
   echo mem_host ''a  b '' mem_example = (Inr \<lparr>code = 0, output_str = ''a  b ''\<rparr>, mem_example) \<and>
   execute_command mem_host ''echo a  b '' mem_example =
     (Inr \<lparr>code = 0, output_str = ''a  b ''\<rparr>, mem_example)"
  using echo_without_redirect [of "''a  b ''" mem_host mem_example]
  by simp




text \<open>
  C7. Every code is 0 or -1: the code of every result the dispatcher returns, the value
  every call of \<open>execute\<close> returns, and the value of \<open>last_status\<close> in every state the
  module can reach.
\<close>

theorem status_codes_are_zero_or_minus_one:
  "(execute_command h command fs = (Inr r, fs') \<longrightarrow> code r = 0 \<or> code r = -1) \<and>
   (execute h c k = (Inr v, k') \<longrightarrow> v = 0 \<or> v = -1) \<and>
   (reachable h k \<longrightarrow> get_last_status k = 0 \<or> get_last_status k = -1)"
proof -
  have "v = 0 \<or> v = -1" if "execute h c k = (Inr v, k')"
    using that execute_command_codes [of h _ "vfs k"]
    by (auto simp: execute_def split: option.splits list.splits sum.splits prod.splits)
  then show ?thesis
    using execute_command_codes [of h command fs r fs'] reachable_last_status [of h k]
    by (simp add: get_last_status_def)
qed

theorem status_codes_are_zero_or_minus_one_witness:
  "execute_command mem_host ''ls /nowhere'' mem_example =
     (Inr \<lparr>code = -1, output_str = ''Failed to open directory: /nowhere''\<rparr>, mem_example) \<and>
   execute mem_host (Some ''ls /nowhere'') (boot mem_example) =
     (Inr (-1), \<lparr>last_status = -1, vfs = mem_example\<rparr>) \<and>
   reachable mem_host \<lparr>last_status = -1, vfs = mem_example\<rparr> \<and>
   (code \<lparr>code = -1, output_str = ''Failed to open directory: /nowhere''\<rparr> = 0 \<or>
    code \<lparr>code = -1, output_str = ''Failed to open directory: /nowhere''\<rparr> = -1) \<and>
   (get_last_status \<lparr>last_status = -1, vfs = mem_example\<rparr> = 0 \<or>
    get_last_status \<lparr>last_status = -1, vfs = mem_example\<rparr> = -1)"
proof -
  have run: "execute_command mem_host ''ls /nowhere'' mem_example =
     (Inr \<lparr>code = -1, output_str = ''Failed to open directory: /nowhere''\<rparr>, mem_example)"
    by (simp add: execute_command_eq command_registry_def ls_def mem_host_def mem_example_def)
  then have ex: "execute mem_host (Some ''ls /nowhere'') (boot mem_example) =
     (Inr (-1), \<lparr>last_status = -1, vfs = mem_example\<rparr>)"
    by (simp add: execute_def boot_def)
  have "reachable mem_host (snd (execute mem_host (Some ''ls /nowhere'') (boot mem_example)))"
    by (intro reach_execute reach_boot)
  then have reach: "reachable mem_host \<lparr>last_status = -1, vfs = mem_example\<rparr>"
    by (simp only: ex snd_conv)
  show ?thesis
    using run ex reach
      status_codes_are_zero_or_minus_one [of mem_host "''ls /nowhere''" mem_example
        "\<lparr>code = -1, output_str = ''Failed to open directory: /nowhere''\<rparr>" mem_example
        "Some ''ls /nowhere''" "\<lparr>last_status = -1, vfs = mem_example\<rparr>"]
    by simp
qed

text \<open>
  C8. The rm handler returns code -1 with "Usage: rm <filename>" on an empty argument and
  leaves the filesystem as it was; code 0 with empty output when \<^verbatim>\<open>remove\<close> succeeds; and
  code -1 with "Failed to delete file" when \<^verbatim>\<open>remove\<close> fails. The host's \<^verbatim>\<open>remove\<close> fails on
  a path that does not exist, so "rm /tmp/does-not-exist" gives code -1 and an output that
  is not empty.
\<close>

theorem rm_results:
  "rm h [] fs = (Inr \<lparr>code = -1, output_str = ''Usage: rm <filename>''\<rparr>, fs) \<and>
   (args \<noteq> [] \<longrightarrow> h_remove h args fs = Some fs' \<longrightarrow>
      rm h args fs = (Inr \<lparr>code = 0, output_str = ''''\<rparr>, fs')) \<and>
   (args \<noteq> [] \<longrightarrow> h_remove h args fs = None \<longrightarrow>
      rm h args fs = (Inr \<lparr>code = -1, output_str = ''Failed to delete file''\<rparr>, fs)) \<and>
   (h_remove h ''/tmp/does-not-exist'' fs = None \<longrightarrow>
      (\<exists>r. execute_command h ''rm /tmp/does-not-exist'' fs = (Inr r, fs) \<and>
           code r = -1 \<and> output_str r \<noteq> []))"
  by (simp add: rm_def execute_command_eq command_registry_def)

theorem rm_results_witness:
  "rm mem_host [] mem_example =
     (Inr \<lparr>code = -1, output_str = ''Usage: rm <filename>''\<rparr>, mem_example) \<and>
   ''/tmp/a.txt'' \<noteq> [] \<and>
   h_remove mem_host ''/tmp/a.txt'' mem_example = Some (mem_example\<lparr>files := Map.empty\<rparr>) \<and>
   rm mem_host ''/tmp/a.txt'' mem_example =
     (Inr \<lparr>code = 0, output_str = ''''\<rparr>, mem_example\<lparr>files := Map.empty\<rparr>) \<and>
   ''/tmp/b.txt'' \<noteq> [] \<and>
   h_remove mem_host ''/tmp/b.txt'' mem_example = None \<and>
   rm mem_host ''/tmp/b.txt'' mem_example =
     (Inr \<lparr>code = -1, output_str = ''Failed to delete file''\<rparr>, mem_example) \<and>
   h_remove mem_host ''/tmp/does-not-exist'' mem_example = None \<and>
   (\<exists>r. execute_command mem_host ''rm /tmp/does-not-exist'' mem_example = (Inr r, mem_example) \<and>
        code r = -1 \<and> output_str r \<noteq> [])"
proof -
  have a: "h_remove mem_host ''/tmp/a.txt'' mem_example = Some (mem_example\<lparr>files := Map.empty\<rparr>)"
    by (simp add: mem_host_def mem_example_def)
  have b: "h_remove mem_host ''/tmp/b.txt'' mem_example = None"
    by (simp add: mem_host_def mem_example_def)
  have c: "h_remove mem_host ''/tmp/does-not-exist'' mem_example = None"
    by (simp add: mem_host_def mem_example_def)
  show ?thesis
    using a b c
      rm_results [of mem_host mem_example "''/tmp/a.txt''" "mem_example\<lparr>files := Map.empty\<rparr>"]
      rm_results [of mem_host mem_example "''/tmp/b.txt''"]
    by simp
qed

text \<open>
  C9, as amended. The ls handler lists "/" when its argument is empty. When the directory
  cannot be opened it returns code -1 with "Failed to open directory: " and the path.
  Otherwise it returns code 0, and the output is the lines of the entries in the order of
  \<^verbatim>\<open>readdir\<close>, every line followed by a newline, the last one too. The line of an
  entry is "d " and the name when \<^verbatim>\<open>stat\<close> of the entry's path says directory, "- " and
  the name when it says anything else, and the bare name when \<^verbatim>\<open>stat\<close> fails.
\<close>

theorem ls_results:
  "ls h args fs =
     (let path = (if args = [] then ''/'' else args) in
        case h_opendir h path fs of
          None \<Rightarrow> (Inr \<lparr>code = -1, output_str = ''Failed to open directory: '' @ path\<rparr>, fs)
        | Some entries \<Rightarrow>
            (Inr \<lparr>code = 0,
                  output_str = concat (map (\<lambda>name. ls_entry h path fs name @ [NL]) entries)\<rparr>,
             fs))"
  by (simp add: ls_def ls_loop_eq Let_def split: option.split)

text \<open>
  C9 as stated fails: the lines are not joined by newlines but each ended by one. On a
  directory with the single entry "a.txt" the output is "- a.txt" and a newline, where
  the newline-joined lines are "- a.txt".
\<close>

theorem ls_newline_joined_counterexample:
  "h_opendir mem_host ''/tmp'' mem_example = Some [''a.txt''] \<and>
   ls mem_host ''/tmp'' mem_example =
     (Inr \<lparr>code = 0, output_str = ''- a.txt'' @ [NL]\<rparr>, mem_example) \<and>
   newline_joined (map (ls_entry mem_host ''/tmp'' mem_example) [''a.txt'']) = ''- a.txt'' \<and>
   ''- a.txt'' @ [NL] \<noteq> ''- a.txt''"
  by (simp add: ls_def ls_entry_def mem_host_def mem_example_def)

text \<open>
  C10. The echo handler does not return a result on every argument: when the text after
  the first \<open>>\<close> is empty or holds only spaces and tabs, the left-trim of the filename
  calls \<^verbatim>\<open>substr(npos)\<close>, which throws \<^verbatim>\<open>std::out_of_range\<close>. Nothing catches it: the
  dispatcher and \<open>execute\<close> end with the exception as well, and the state is left as it
  was. The command line "echo hi >" is such an input.
\<close>

theorem echo_blank_target_throws:
  assumes "CHR ''>'' \<in> set args"
    and "set (tl (dropWhile (\<lambda>c. c \<noteq> CHR ''>'') args)) \<subseteq> {CHR '' '', TAB}"
  shows "echo h args fs = (Inl Out_of_range, fs) \<and>
     execute_command h (''echo '' @ args) fs = (Inl Out_of_range, fs) \<and>
     execute h (Some (''echo '' @ args)) k = (Inl Out_of_range, k)"
proof -
  obtain gt_pos where fc: "find_char args (CHR ''>'') = Some gt_pos"
    using assms(1) by (simp add: find_char_Some)
  have e: "echo h args fs = (Inl Out_of_range, fs)" for fs
    using assms(2) by (simp add: echo_def fc echo_redirect_eq [OF fc])
  have d: "execute_command h (''echo '' @ args) fs = echo h args fs" for fs
    by (simp add: execute_command_eq command_registry_def)
  show ?thesis
    by (simp add: execute_def d [simplified] e)
qed

theorem echo_blank_target_throws_witness:
  "CHR ''>'' \<in> set ''hi >'' \<and>
   set (tl (dropWhile (\<lambda>c. c \<noteq> CHR ''>'') ''hi >'')) \<subseteq> {CHR '' '', TAB} \<and>
   echo mem_host ''hi >'' mem_example = (Inl Out_of_range, mem_example) \<and>
   execute_command mem_host ''echo hi >'' mem_example = (Inl Out_of_range, mem_example) \<and>
   execute mem_host (Some ''echo hi >'') (boot mem_example) =
     (Inl Out_of_range, boot mem_example)"
  using echo_blank_target_throws [of "''hi >''" mem_host mem_example "boot mem_example"]
  by simp

end
